theory Spec2Isabelle
  imports Complex_Main
begin

section \<open>Data model\<close>

text \<open>
  The round engine of the guessing game: \<^verbatim>\<open>src/components/GamePlayer.tsx\<close> (timer,
  guess, scoring) and \<^verbatim>\<open>src/App.tsx\<close> (track selection). JavaScript numbers are
  modelled as reals (the score, an integer after \<^verbatim>\<open>Math.round\<close>, as \<open>int\<close>), strings as
  \<open>string\<close>, \<^verbatim>\<open>Set<string>\<close> as \<open>string set\<close>, and \<^verbatim>\<open>T | null\<close> as \<open>T option\<close>.
  The types of \<^verbatim>\<open>types/spotify\<close> are given the fields that the two files read.
\<close>

record SpotifyArtist =
  artist_name :: string

record SpotifyTrack =
  track_id :: string
  track_name :: string
  track_artists :: "SpotifyArtist list"

record Result =
  score :: int
  isCorrect :: bool

datatype error = TypeError

section \<open>Scoring (GamePlayer.tsx, calculateScore)\<close>

text \<open>
  \<^verbatim>\<open>const timeBonus = Math.max(0, 1 - (timer / 30));\<close>
\<close>

definition timeBonus :: "real \<Rightarrow> real" where
  "timeBonus timer = max 0 (1 - timer / 30)"

text \<open>
  \<^verbatim>\<open>calculateSimilarity\<close> lives in \<^verbatim>\<open>utils/similarity\<close> and is a parameter here.
  \<^verbatim>\<open>track.artists[0].name\<close> throws a TypeError when the artist list is empty.
  \<^verbatim>\<open>Math.round\<close> rounds to the nearest integer, ties upwards, which is \<^const>\<open>round\<close>.
\<close>

definition calculateScore ::
  "(string \<Rightarrow> string \<Rightarrow> real) \<Rightarrow> string \<Rightarrow> string \<Rightarrow> SpotifyTrack \<Rightarrow> real \<Rightarrow> error + Result" where
  "calculateScore calculateSimilarity titleGuess artistGuess track timer =
     (let titleSimilarity = calculateSimilarity titleGuess (track_name track) in
      case track_artists track of
        [] \<Rightarrow> Inl TypeError
      | artist0 # _ \<Rightarrow>
          (let artistSimilarity = calculateSimilarity artistGuess (artist_name artist0);
               averageSimilarity = (titleSimilarity + artistSimilarity) / 2;
               bonus = timeBonus timer;
               score = round ((averageSimilarity * 80 + bonus * 20) * 100)
           in Inr \<lparr>score = score,
                   isCorrect = (titleSimilarity > 0.8 \<and> artistSimilarity > 0.8)\<rparr>))"

text \<open>The round result as the specification words it, in its six steps.\<close>

definition spec_roundResult ::
  "(string \<Rightarrow> string \<Rightarrow> real) \<Rightarrow> string \<Rightarrow> string \<Rightarrow> string \<Rightarrow> string \<Rightarrow> real \<Rightarrow> Result" where
  "spec_roundResult similarity titleGuess artistGuess title primaryArtist elapsedSeconds =
     (let titleSim = similarity titleGuess title;
          artistSim = similarity artistGuess primaryArtist;
          avgSim = (titleSim + artistSim) / 2;
          tb = max 0 (1 - elapsedSeconds / 30)
      in \<lparr>score = round ((avgSim * 80 + tb * 20) * 100),
          isCorrect = (titleSim > 0.8 \<and> artistSim > 0.8)\<rparr>)"

text \<open>A stand-in for the similarity parameter on concrete inputs: 1 on equal strings, else 0.\<close>

definition exactMatch :: "string \<Rightarrow> string \<Rightarrow> real" where
  "exactMatch a b = (if a = b then 1 else 0)"

definition borderline :: "string \<Rightarrow> string \<Rightarrow> real" where
  "borderline a b = 0.8"

definition queen :: SpotifyTrack where
  "queen = \<lparr>track_id = ''q1'', track_name = ''Bohemian Rhapsody'',
            track_artists = [\<lparr>artist_name = ''Queen''\<rparr>]\<rparr>"


section \<open>Track selection (App.tsx)\<close>

text \<open>
  \<^verbatim>\<open>xs[i]\<close> of JavaScript: \<^verbatim>\<open>undefined\<close> outside the array, which the caller's
  \<^verbatim>\<open>!track\<close> treats like \<^verbatim>\<open>null\<close>.
\<close>

definition js_index :: "'a list \<Rightarrow> int \<Rightarrow> 'a option" where
  "js_index xs i = (if 0 \<le> i \<and> nat i < length xs then Some (xs ! nat i) else None)"

text \<open>
  \<^verbatim>\<open>selectRandomTrack\<close> reads the component state \<^verbatim>\<open>playedTracks\<close> and draws
  \<^verbatim>\<open>Math.random()\<close>, a number in \<open>[0, 1)\<close>: both are arguments here.
\<close>

definition selectRandomTrack ::
  "string set \<Rightarrow> real \<Rightarrow> SpotifyTrack list \<Rightarrow> SpotifyTrack option" where
  "selectRandomTrack playedTracks random tracks =
     (let availableTracks = filter (\<lambda>track. track_id track \<notin> playedTracks) tracks in
      if length availableTracks = 0 then None
      else js_index availableTracks \<lfloor>random * real (length availableTracks)\<rfloor>)"

record SpotifyPlaylist =
  playlist_id :: string
  tracks_total :: int


text \<open>
  The state of \<^verbatim>\<open>App\<close> that the selection handlers read and write (\<^verbatim>\<open>user\<close> and
  \<^verbatim>\<open>playlists\<close> are written by the mount effect only).
\<close>

record App =
  currentTrack :: "SpotifyTrack option"
  appError :: "string option"
  currentPlaylist :: "SpotifyPlaylist option"
  playedTracks :: "string set"



section \<open>The round component (GamePlayer.tsx)\<close>

datatype player_call = PlayTrack SpotifyTrack | TogglePlayback

text \<open>
  The component's props, hook values, state, ref, the interval timers it has running in
  the window, and the calls it has made to the player hook and to \<^verbatim>\<open>onGameComplete\<close>.
\<close>

record GamePlayer =
  track :: SpotifyTrack
  isPlaying :: bool
  isInitialized :: bool
  timer :: real
  isGuessing :: bool
  titleGuess :: string
  artistGuess :: string
  result :: "Result option"
  intervalRef :: "nat option"
  intervals :: "nat set"
  lastHandle :: nat
  playerCalls :: "player_call list"
  completed :: "int list"

text \<open>\<^verbatim>\<open>window.setInterval\<close> hands out a fresh positive handle; \<^verbatim>\<open>clearInterval\<close> retires one.\<close>

definition setInterval :: "GamePlayer \<Rightarrow> nat \<times> GamePlayer" where
  "setInterval s =
     (let h = Suc (lastHandle s) in (h, s\<lparr>intervals := insert h (intervals s), lastHandle := h\<rparr>))"

definition clearInterval :: "nat \<Rightarrow> GamePlayer \<Rightarrow> GamePlayer" where
  "clearInterval h s = s\<lparr>intervals := intervals s - {h}\<rparr>"

text \<open>
  Both effects return the same cleanup:
  \<^verbatim>\<open>if (intervalRef.current) window.clearInterval(intervalRef.current)\<close>
  (\<^verbatim>\<open>undefined\<close> and 0 are falsy).
\<close>

definition clearIfSet :: "GamePlayer \<Rightarrow> GamePlayer" where
  "clearIfSet s =
     (case intervalRef s of
        None \<Rightarrow> s
      | Some h \<Rightarrow> if h \<noteq> 0 then clearInterval h s else s)"

text \<open>The effect on \<^verbatim>\<open>[track, isInitialized]\<close>.\<close>

definition trackEffect :: "GamePlayer \<Rightarrow> GamePlayer" where
  "trackEffect s =
     (if isInitialized s then s\<lparr>playerCalls := playerCalls s @ [PlayTrack (track s)]\<rparr> else s)"

text \<open>The effect on \<^verbatim>\<open>[isPlaying, isGuessing, result]\<close>.\<close>

definition timerEffect :: "GamePlayer \<Rightarrow> GamePlayer" where
  "timerEffect s =
     (if isPlaying s \<and> \<not> isGuessing s \<and> result s = None
      then (let (h, s') = setInterval s in s'\<lparr>intervalRef := Some h\<rparr>)
      else clearIfSet s)"

text \<open>
  A render after a state change: the cleanups of the effects whose dependencies changed
  run first, then those effects, in the order of the source. A state change and the
  render it causes are one step of the model.
\<close>

definition rerender :: "bool \<Rightarrow> bool \<Rightarrow> GamePlayer \<Rightarrow> GamePlayer" where
  "rerender trackDeps timerDeps s =
     (let s1 = (if trackDeps then clearIfSet s else s);
          s2 = (if timerDeps then clearIfSet s1 else s1);
          s3 = (if trackDeps then trackEffect s2 else s2)
      in if timerDeps then timerEffect s3 else s3)"

definition mount :: "SpotifyTrack \<Rightarrow> bool \<Rightarrow> bool \<Rightarrow> GamePlayer" where
  "mount t playing initialized =
     rerender True True
       \<lparr>track = t, isPlaying = playing, isInitialized = initialized, timer = 0,
        isGuessing = False, titleGuess = [], artistGuess = [], result = None,
        intervalRef = None, intervals = {}, lastHandle = 0, playerCalls = [],
        completed = []\<rparr>"

text \<open>
  \<^verbatim>\<open>handlePauseAndGuess\<close> is split at its \<^verbatim>\<open>await\<close>: the request calls
  \<^verbatim>\<open>togglePlayback()\<close>; the continuation runs when that promise settles, and only if
  it is fulfilled (a rejection leaves the handler at the \<^verbatim>\<open>await\<close>).
\<close>

datatype settled = Fulfilled | Rejected

definition handlePauseAndGuess_request :: "GamePlayer \<Rightarrow> GamePlayer" where
  "handlePauseAndGuess_request s = s\<lparr>playerCalls := playerCalls s @ [TogglePlayback]\<rparr>"

definition handlePauseAndGuess_resume :: "settled \<Rightarrow> GamePlayer \<Rightarrow> GamePlayer" where
  "handlePauseAndGuess_resume outcome s =
     (case outcome of
        Rejected \<Rightarrow> s
      | Fulfilled \<Rightarrow> rerender False (\<not> isGuessing s) (s\<lparr>isGuessing := True\<rparr>))"

definition handleSubmitGuess :: "(string \<Rightarrow> string \<Rightarrow> real) \<Rightarrow> GamePlayer \<Rightarrow> GamePlayer" where
  "handleSubmitGuess calculateSimilarity s =
     (case calculateScore calculateSimilarity (titleGuess s) (artistGuess s) (track s) (timer s) of
        Inl e \<Rightarrow> s
      | Inr r \<Rightarrow> rerender False True (s\<lparr>result := Some r, completed := completed s @ [score r]\<rparr>))"

text \<open>
  \<^verbatim>\<open>handlePlayAgain\<close>: the five setters, then the \<^verbatim>\<open>onPlayAgain\<close> prop, which acts on
  the parent's state.
\<close>

definition resetRound :: "GamePlayer \<Rightarrow> GamePlayer" where
  "resetRound s =
     rerender False (isGuessing s \<or> result s \<noteq> None)
       (s\<lparr>timer := 0, isGuessing := False, titleGuess := [], artistGuess := [],
          result := None\<rparr>)"


text \<open>
  The events the component reacts to: a new \<^verbatim>\<open>track\<close> prop, new values of the player
  hook, a firing of interval \<open>h\<close>, and the user's actions.
\<close>

datatype event =
    TrackChanged SpotifyTrack
  | PlayerChanged bool bool
  | Tick nat
  | PauseRequested
  | PauseSettled settled
  | TitleInput string
  | ArtistInput string
  | SubmitGuess
  | PlayAgain

fun step :: "(string \<Rightarrow> string \<Rightarrow> real) \<Rightarrow> event \<Rightarrow> GamePlayer \<Rightarrow> GamePlayer" where
  "step sim (TrackChanged t) s = rerender True False (s\<lparr>track := t\<rparr>)"
| "step sim (PlayerChanged playing initialized) s =
     rerender (initialized \<noteq> isInitialized s) (playing \<noteq> isPlaying s)
       (s\<lparr>isPlaying := playing, isInitialized := initialized\<rparr>)"
| "step sim (Tick h) s = (if h \<in> intervals s then s\<lparr>timer := timer s + 0.1\<rparr> else s)"
| "step sim PauseRequested s = handlePauseAndGuess_request s"
| "step sim (PauseSettled outcome) s = handlePauseAndGuess_resume outcome s"
| "step sim (TitleInput v) s = s\<lparr>titleGuess := v\<rparr>"
| "step sim (ArtistInput v) s = s\<lparr>artistGuess := v\<rparr>"
| "step sim SubmitGuess s = handleSubmitGuess sim s"
| "step sim PlayAgain s = resetRound s"

definition run :: "(string \<Rightarrow> string \<Rightarrow> real) \<Rightarrow> event list \<Rightarrow> GamePlayer \<Rightarrow> GamePlayer" where
  "run sim es s = foldl (\<lambda>s e. step sim e s) s es"

text \<open>The timer is live when one of the component's intervals is running.\<close>

definition timerCondition :: "GamePlayer \<Rightarrow> bool" where
  "timerCondition s = (isPlaying s \<and> \<not> isGuessing s \<and> result s = None)"

text \<open>
  The invariant of the timer effect: every running interval is the one whose handle
  \<^verbatim>\<open>intervalRef\<close> holds, and an interval runs only under the effect's condition.
\<close>

definition timerInv :: "GamePlayer \<Rightarrow> bool" where
  "timerInv s = ((\<forall>h\<in>intervals s. intervalRef s = Some h \<and> h \<noteq> 0) \<and>
                 (intervals s \<noteq> {} \<longrightarrow> timerCondition s))"

section \<open>Similarity (utils/similarity)\<close>

text \<open>
  Modelled from the spec: \<^verbatim>\<open>calculateSimilarity\<close> of \<^verbatim>\<open>utils/similarity\<close>, which is
  imported by \<^verbatim>\<open>GamePlayer.tsx\<close> and is not among the source files. The specification
  describes it as a normalised edit distance between the case-folded, trimmed forms of
  the two strings, the same normalisation applied to both. Characters are bytes here and
  case folding covers the ASCII letters.
\<close>

definition isSpace :: "char \<Rightarrow> bool" where
  "isSpace c = (of_char c \<in> {32, 9, 10, 11, 12, 13 :: nat})"

definition isUpper :: "char \<Rightarrow> bool" where
  "isUpper c = (65 \<le> (of_char c :: nat) \<and> (of_char c :: nat) \<le> 90)"

text \<open>Modelled from the spec: lowercasing, the case folding of the normalisation.\<close>

definition toLowerCase :: "char \<Rightarrow> char" where
  "toLowerCase c = (if isUpper c then char_of (of_char c + 32 :: nat) else c)"

text \<open>Modelled from the spec: trimming of leading and trailing whitespace.\<close>

definition trim :: "string \<Rightarrow> string" where
  "trim s = rev (dropWhile isSpace (rev (dropWhile isSpace s)))"

text \<open>Modelled from the spec: the normal form that both arguments are brought to.\<close>

definition normalise :: "string \<Rightarrow> string" where
  "normalise s = trim (map toLowerCase s)"

text \<open>
  Modelled from the spec: the edit distance (insertions, deletions and substitutions of
  one character).
\<close>

fun editDistance :: "string \<Rightarrow> string \<Rightarrow> nat" where
  "editDistance [] ys = length ys"
| "editDistance (x # xs) [] = Suc (length xs)"
| "editDistance (x # xs) (y # ys) =
     min (min (Suc (editDistance xs (y # ys))) (Suc (editDistance (x # xs) ys)))
         (editDistance xs ys + (if x = y then 0 else 1))"

text \<open>
  Modelled from the spec: the similarity in \<open>[0, 1]\<close>, one minus the edit distance over the
  length of the longer normal form; two empty normal forms are identical and score 1.
\<close>

definition similarity :: "string \<Rightarrow> string \<Rightarrow> real" where
  "similarity a b =
     (let x = normalise a; y = normalise b; longest = max (length x) (length y) in
      if longest = 0 then 1 else 1 - real (editDistance x y) / real longest)"


section \<open>Sample data\<close>

definition yesterday :: SpotifyTrack where
  "yesterday = \<lparr>track_id = ''b1'', track_name = ''Yesterday'',
                track_artists = [\<lparr>artist_name = ''The Beatles''\<rparr>]\<rparr>"





text \<open>
  A round in progress: the component mounted on a playing, initialised player and three
  ticks later; the same round after the pause has settled and a title was typed; and
  the round after the guess was submitted.
\<close>

definition playing :: GamePlayer where
  "playing = run exactMatch [Tick 1, Tick 1, Tick 1] (mount queen True True)"

definition midGuessing :: GamePlayer where
  "midGuessing =
     run exactMatch
       [PauseRequested, PlayerChanged False True, PauseSettled Fulfilled, TitleInput ''bohemian'']
       playing"



section \<open>Scoring: the round result\<close>

text \<open>
  C1. With a first artist present, \<^const>\<open>calculateScore\<close> returns exactly the result that
  the specification's six steps describe: the two similarities, their average, the time
  bonus \<open>max 0 (1 - t/30)\<close>, the score \<open>round ((avgSim * 80 + timeBonus * 20) * 100)\<close>, and
  \<open>isCorrect\<close> as the conjunction of the two strict comparisons with 0.8. A component
  similarity of exactly 0.8 therefore gives \<open>isCorrect = False\<close>.
\<close>

theorem calculateScore_spec:
  assumes "track_artists tr = artist0 # rest"
  shows "calculateScore sim tg ag tr t =
           Inr (spec_roundResult sim tg ag (track_name tr) (artist_name artist0) t)
         \<and> (sim tg (track_name tr) = 0.8 \<or> sim ag (artist_name artist0) = 0.8
              \<longrightarrow> (\<exists>r. calculateScore sim tg ag tr t = Inr r \<and> \<not> isCorrect r))"
  using assms by (auto simp add: calculateScore_def spec_roundResult_def timeBonus_def Let_def)

theorem calculateScore_spec_witness:
  "track_artists queen = \<lparr>artist_name = ''Queen''\<rparr> # []
   \<and> borderline ''x'' (track_name queen) = 0.8
   \<and> calculateScore borderline ''x'' ''y'' queen 15 =
       Inr (spec_roundResult borderline ''x'' ''y'' (track_name queen) ''Queen'' 15)
   \<and> calculateScore borderline ''x'' ''y'' queen 15 = Inr \<lparr>score = 7400, isCorrect = False\<rparr>"
proof -
  have a: "track_artists queen = \<lparr>artist_name = ''Queen''\<rparr> # []"
    by (simp add: queen_def)
  have b: "borderline ''x'' (track_name queen) = 0.8"
    by (simp add: borderline_def)
  have c: "calculateScore borderline ''x'' ''y'' queen 15 = Inr \<lparr>score = 7400, isCorrect = False\<rparr>"
    by (simp add: calculateScore_def borderline_def queen_def timeBonus_def)
  show ?thesis
    using calculateScore_spec [OF a, of borderline "''x''" "''y''" 15] a b c by simp
qed

text \<open>
  C2, as stated, fails: a perfect guess at time 0 scores 10000, which is above 100.
\<close>

theorem score_range_counterexample:
  "exactMatch ''Bohemian Rhapsody'' (track_name queen) = 1
   \<and> exactMatch ''Queen'' ''Queen'' = 1
   \<and> calculateScore exactMatch ''Bohemian Rhapsody'' ''Queen'' queen 0 =
       Inr \<lparr>score = 10000, isCorrect = True\<rparr>
   \<and> \<not> score \<lparr>score = 10000, isCorrect = True\<rparr> \<le> 100"
  by (simp add: calculateScore_def exactMatch_def queen_def timeBonus_def)

text \<open>
  C2, amended. For similarities in \<open>[0, 1]\<close> and an elapsed time \<open>t \<ge> 0\<close> the score is an
  integer between 0 and 10000 inclusive: the weighted sum lies in \<open>[0, 100]\<close> and is
  multiplied by 100 before rounding.
\<close>

theorem score_range:
  assumes "track_artists tr = artist0 # rest"
    and "0 \<le> sim tg (track_name tr)" "sim tg (track_name tr) \<le> 1"
    and "0 \<le> sim ag (artist_name artist0)" "sim ag (artist_name artist0) \<le> 1"
    and "0 \<le> t"
  shows "\<exists>r. calculateScore sim tg ag tr t = Inr r \<and> 0 \<le> score r \<and> score r \<le> 10000"
proof -
  let ?a = "sim tg (track_name tr)" and ?b = "sim ag (artist_name artist0)"
  let ?x = "((?a + ?b) / 2 * 80 + timeBonus t * 20) * 100"
  have tb: "0 \<le> timeBonus t" "timeBonus t \<le> 1"
    using assms(6) by (simp_all add: timeBonus_def)
  have lo: "0 \<le> ?x" using assms(2,4) tb by simp
  have hi: "?x \<le> 10000" using assms(3,5) tb by (simp add: field_simps)
  have "round (0::real) \<le> round ?x" using lo by (rule round_mono)
  moreover have "round ?x \<le> round (10000::real)" using hi by (rule round_mono)
  ultimately have "0 \<le> round ?x \<and> round ?x \<le> 10000" by simp
  then show ?thesis using assms(1) by (simp add: calculateScore_def Let_def)
qed

theorem score_range_witness:
  "track_artists queen = \<lparr>artist_name = ''Queen''\<rparr> # []
   \<and> 0 \<le> exactMatch ''Bohemian Rhapsody'' (track_name queen)
   \<and> exactMatch ''Bohemian Rhapsody'' (track_name queen) \<le> 1
   \<and> 0 \<le> exactMatch ''Quen'' (artist_name \<lparr>artist_name = ''Queen''\<rparr>)
   \<and> exactMatch ''Quen'' (artist_name \<lparr>artist_name = ''Queen''\<rparr>) \<le> 1
   \<and> (0::real) \<le> 3
   \<and> (\<exists>r. calculateScore exactMatch ''Bohemian Rhapsody'' ''Quen'' queen 3 = Inr r
          \<and> 0 \<le> score r \<and> score r \<le> 10000)
   \<and> calculateScore exactMatch ''Bohemian Rhapsody'' ''Quen'' queen 3 =
       Inr \<lparr>score = 5800, isCorrect = False\<rparr>"
proof -
  have a: "track_artists queen = \<lparr>artist_name = ''Queen''\<rparr> # []"
    by (simp add: queen_def)
  have b: "0 \<le> exactMatch ''Bohemian Rhapsody'' (track_name queen)"
    "exactMatch ''Bohemian Rhapsody'' (track_name queen) \<le> 1"
    "0 \<le> exactMatch ''Quen'' (artist_name \<lparr>artist_name = ''Queen''\<rparr>)"
    "exactMatch ''Quen'' (artist_name \<lparr>artist_name = ''Queen''\<rparr>) \<le> 1"
    by (simp_all add: exactMatch_def)
  have c: "(0::real) \<le> 3" by simp
  have d: "calculateScore exactMatch ''Bohemian Rhapsody'' ''Quen'' queen 3 =
             Inr \<lparr>score = 5800, isCorrect = False\<rparr>"
    by (simp add: calculateScore_def exactMatch_def queen_def timeBonus_def)
  show ?thesis using score_range [OF a b c] a b c d by simp
qed

section \<open>Scoring: the time bonus\<close>

text \<open>
  C4. The time bonus is 1 at 0 seconds, 0 at 30 seconds and 0 at 60 seconds, it is never
  negative, and it is monotonically non-increasing: \<open>t1 \<le> t2\<close> gives
  \<open>timeBonus t2 \<le> timeBonus t1\<close>.
\<close>

theorem timeBonus_spec:
  "timeBonus 0 = 1 \<and> timeBonus 30 = 0 \<and> timeBonus 60 = 0 \<and> 0 \<le> timeBonus t
   \<and> (t1 \<le> t2 \<longrightarrow> timeBonus t2 \<le> timeBonus t1)"
  by (auto simp add: timeBonus_def max_def divide_le_cancel)

theorem timeBonus_spec_witness:
  "(2::real) \<le> 45 \<and> timeBonus 45 \<le> timeBonus 2 \<and> timeBonus 2 = 14 / 15 \<and> timeBonus 45 = 0"
proof -
  have le: "(2::real) \<le> 45" by simp
  have mono: "timeBonus 45 \<le> timeBonus 2"
    using timeBonus_spec [of 0 2 45] le by blast
  have vals: "timeBonus 2 = 14 / 15" "timeBonus 45 = 0"
    by (simp_all add: timeBonus_def)
  show ?thesis using le mono vals by simp
qed

section \<open>Track selection: the draw\<close>

lemma random_index_in_range:
  assumes "0 \<le> r" "r < 1" "0 < n"
  shows "0 \<le> \<lfloor>r * real n\<rfloor> \<and> nat \<lfloor>r * real n\<rfloor> < n"
proof -
  have "0 \<le> r * real n" using assms(1) by simp
  then have lo: "0 \<le> \<lfloor>r * real n\<rfloor>" by simp
  have "r * real n < real n" using assms(2,3) by simp
  then have "\<lfloor>r * real n\<rfloor> < int n" by (simp add: floor_less_iff)
  then show ?thesis using lo by linarith
qed

lemma selectRandomTrack_Some_nth:
  assumes "0 \<le> r" "r < 1"
    and "filter (\<lambda>t. track_id t \<notin> P) ts \<noteq> []"
  shows "selectRandomTrack P r ts =
           Some (filter (\<lambda>t. track_id t \<notin> P) ts !
                 nat \<lfloor>r * real (length (filter (\<lambda>t. track_id t \<notin> P) ts))\<rfloor>)
         \<and> nat \<lfloor>r * real (length (filter (\<lambda>t. track_id t \<notin> P) ts))\<rfloor>
             < length (filter (\<lambda>t. track_id t \<notin> P) ts)"
proof -
  let ?av = "filter (\<lambda>t. track_id t \<notin> P) ts"
  have "0 < length ?av" using assms(3) by simp
  from random_index_in_range [OF assms(1,2) this]
  show ?thesis using assms(3) by (simp add: selectRandomTrack_def js_index_def Let_def)
qed

lemma selectRandomTrack_None_iff:
  assumes "0 \<le> r" "r < 1"
  shows "selectRandomTrack P r ts = None \<longleftrightarrow> (\<forall>t\<in>set ts. track_id t \<in> P)"
proof (cases "filter (\<lambda>t. track_id t \<notin> P) ts = []")
  case True
  then have "\<forall>t\<in>set ts. track_id t \<in> P" by (simp add: filter_empty_conv)
  moreover have "selectRandomTrack P r ts = None" using True by (simp add: selectRandomTrack_def)
  ultimately show ?thesis by simp
next
  case False
  then have "\<not> (\<forall>t\<in>set ts. track_id t \<in> P)" by (simp add: filter_empty_conv)
  moreover have "selectRandomTrack P r ts \<noteq> None"
    using selectRandomTrack_Some_nth [OF assms False] by simp
  ultimately show ?thesis by blast
qed

lemma selectRandomTrack_Some_member:
  assumes "0 \<le> r" "r < 1" "selectRandomTrack P r ts = Some t"
  shows "t \<in> set ts \<and> track_id t \<notin> P"
proof -
  let ?av = "filter (\<lambda>t. track_id t \<notin> P) ts"
  have ne: "?av \<noteq> []" using assms(3) by (auto simp add: selectRandomTrack_def)
  from selectRandomTrack_Some_nth [OF assms(1,2) ne] assms(3)
  have "t \<in> set ?av" by (metis nth_mem option.inject)
  then show ?thesis by simp
qed

lemma selectRandomTrack_single:
  assumes "0 \<le> r" "r < 1"
    and "ts = xs @ u # ys" "track_id u \<notin> P" "\<forall>t\<in>set xs \<union> set ys. track_id t \<in> P"
  shows "selectRandomTrack P r ts = Some u"
proof -
  have "filter (\<lambda>t. track_id t \<notin> P) xs = []" "filter (\<lambda>t. track_id t \<notin> P) ys = []"
    using assms(5) by (auto simp add: filter_empty_conv)
  then have av: "filter (\<lambda>t. track_id t \<notin> P) ts = [u]" using assms(3,4) by simp
  then have ne: "filter (\<lambda>t. track_id t \<notin> P) ts \<noteq> []" by simp
  from selectRandomTrack_Some_nth [OF assms(1,2) ne] show ?thesis by (simp add: av)
qed

text \<open>
  C3. For a random number in \<open>[0, 1)\<close>, any candidate list \<open>ts\<close> and any played set \<open>P\<close>:
  the draw returns nothing if and only if every candidate's id is in \<open>P\<close>; a track it
  returns is a candidate whose id is not in \<open>P\<close>; and when one candidate \<open>u\<close> is unplayed
  and all the others are played, it returns \<open>u\<close> whatever the random number.
\<close>

theorem selectRandomTrack_spec:
  assumes "0 \<le> r" "r < 1"
  shows "(selectRandomTrack P r ts = None \<longleftrightarrow> (\<forall>t\<in>set ts. track_id t \<in> P))
       \<and> (selectRandomTrack P r ts = Some t \<longrightarrow> t \<in> set ts \<and> track_id t \<notin> P)
       \<and> (ts = xs @ u # ys \<and> track_id u \<notin> P \<and> (\<forall>t\<in>set xs \<union> set ys. track_id t \<in> P)
             \<longrightarrow> selectRandomTrack P r ts = Some u)"
proof (intro conjI impI)
  show "selectRandomTrack P r ts = None \<longleftrightarrow> (\<forall>t\<in>set ts. track_id t \<in> P)"
    by (rule selectRandomTrack_None_iff [OF assms])
next
  assume "selectRandomTrack P r ts = Some t"
  then show "t \<in> set ts" "track_id t \<notin> P"
    using selectRandomTrack_Some_member [OF assms] by simp_all
next
  assume "ts = xs @ u # ys \<and> track_id u \<notin> P \<and> (\<forall>t\<in>set xs \<union> set ys. track_id t \<in> P)"
  then show "selectRandomTrack P r ts = Some u"
    using selectRandomTrack_single [OF assms] by simp
qed

theorem selectRandomTrack_spec_witness:
  "(0::real) \<le> 1/2 \<and> (1/2::real) < 1
   \<and> [queen, yesterday] = [queen] @ yesterday # []
   \<and> track_id yesterday \<notin> {''q1''} \<and> track_id queen \<in> {''q1''}
   \<and> selectRandomTrack {''q1''} (1/2) [queen, yesterday] = Some yesterday
   \<and> yesterday \<in> set [queen, yesterday]
   \<and> selectRandomTrack {''q1''} (1/2) [queen, yesterday] \<noteq> None"
proof -
  have r: "(0::real) \<le> 1/2" "(1/2::real) < 1" by simp_all
  have split: "[queen, yesterday] = [queen] @ yesterday # []" by simp
  have ids: "track_id yesterday \<notin> {''q1''}" "\<forall>t\<in>set [queen] \<union> set []. track_id t \<in> {''q1''}"
    by (simp_all add: queen_def yesterday_def)
  note spec = selectRandomTrack_spec
    [OF r, of "{''q1''}" "[queen, yesterday]" yesterday "[queen]" yesterday "[]"]
  have one: "selectRandomTrack {''q1''} (1/2) [queen, yesterday] = Some yesterday"
    using spec split ids by blast
  then have mem: "yesterday \<in> set [queen, yesterday]" using spec by blast
  have played: "track_id queen \<in> {''q1''}" by (simp add: queen_def)
  show ?thesis using r split ids(1) played one mem by simp
qed

section \<open>Track selection: choosing a playlist\<close>





section \<open>The round component: effects and the timer invariant\<close>

lemma clearIfSet_fields:
  "timer (clearIfSet s) = timer s" "isGuessing (clearIfSet s) = isGuessing s"
  "isPlaying (clearIfSet s) = isPlaying s" "result (clearIfSet s) = result s"
  "titleGuess (clearIfSet s) = titleGuess s" "artistGuess (clearIfSet s) = artistGuess s"
  "intervalRef (clearIfSet s) = intervalRef s" "isInitialized (clearIfSet s) = isInitialized s"
  "track (clearIfSet s) = track s" "playerCalls (clearIfSet s) = playerCalls s"
  by (simp_all add: clearIfSet_def clearInterval_def split: option.split)

lemma clearIfSet_intervals_subset: "intervals (clearIfSet s) \<subseteq> intervals s"
  by (auto simp add: clearIfSet_def clearInterval_def split: option.split)

lemma clearIfSet_empties:
  assumes "\<forall>h\<in>intervals s. intervalRef s = Some h \<and> h \<noteq> 0"
  shows "intervals (clearIfSet s) = {}"
  using assms by (auto simp add: clearIfSet_def clearInterval_def split: option.split)

lemma trackEffect_fields:
  "timer (trackEffect s) = timer s" "isGuessing (trackEffect s) = isGuessing s"
  "isPlaying (trackEffect s) = isPlaying s" "result (trackEffect s) = result s"
  "titleGuess (trackEffect s) = titleGuess s" "artistGuess (trackEffect s) = artistGuess s"
  "intervalRef (trackEffect s) = intervalRef s" "intervals (trackEffect s) = intervals s"
  "track (trackEffect s) = track s"
  by (simp_all add: trackEffect_def)

lemma timerEffect_fields:
  "timer (timerEffect s) = timer s" "isGuessing (timerEffect s) = isGuessing s"
  "isPlaying (timerEffect s) = isPlaying s" "result (timerEffect s) = result s"
  "titleGuess (timerEffect s) = titleGuess s" "artistGuess (timerEffect s) = artistGuess s"
  "track (timerEffect s) = track s"
  by (simp_all add: timerEffect_def setInterval_def Let_def clearIfSet_fields)

lemma timerEffect_inv:
  assumes "intervals s = {}"
  shows "timerInv (timerEffect s)"
  using assms
  by (simp add: timerInv_def timerEffect_def setInterval_def Let_def timerCondition_def
      clearIfSet_def clearInterval_def split: option.split)

lemma rerender_fields:
  "timer (rerender a b s) = timer s" "isGuessing (rerender a b s) = isGuessing s"
  "isPlaying (rerender a b s) = isPlaying s" "result (rerender a b s) = result s"
  "titleGuess (rerender a b s) = titleGuess s" "artistGuess (rerender a b s) = artistGuess s"
  "track (rerender a b s) = track s"
  by (simp_all add: rerender_def Let_def clearIfSet_fields trackEffect_fields timerEffect_fields)

lemma rerender_timerDeps_inv:
  assumes "\<forall>h\<in>intervals s. intervalRef s = Some h \<and> h \<noteq> 0"
  shows "timerInv (rerender a True s)"
proof -
  have e1: "intervals (clearIfSet s) = {}" by (rule clearIfSet_empties [OF assms])
  have e2: "intervals (clearIfSet (clearIfSet s)) = {}"
    using clearIfSet_intervals_subset [of "clearIfSet s"] e1 by simp
  show ?thesis
    by (simp add: rerender_def Let_def timerEffect_inv trackEffect_fields e1 e2)
qed

lemma rerender_noTimerDeps_inv:
  assumes "timerInv s"
  shows "timerInv (rerender a False s)"
proof (cases a)
  case False
  then show ?thesis using assms by (simp add: rerender_def)
next
  case True
  have "intervals (clearIfSet s) = {}"
    using assms by (simp add: timerInv_def clearIfSet_empties)
  then show ?thesis using True
    by (simp add: rerender_def Let_def timerInv_def trackEffect_fields)
qed

lemma timerInv_cong:
  assumes "timerInv s" "intervals s' = intervals s" "intervalRef s' = intervalRef s"
    "timerCondition s' = timerCondition s"
  shows "timerInv s'"
  using assms by (simp add: timerInv_def)

lemma mount_inv: "timerInv (mount t p i)"
  unfolding mount_def by (rule rerender_timerDeps_inv) simp

lemma step_inv:
  assumes "timerInv s"
  shows "timerInv (step sim e s)"
proof (cases e)
  case (TrackChanged t)
  have "timerInv (s\<lparr>track := t\<rparr>)"
    by (rule timerInv_cong [OF assms]) (simp_all add: timerCondition_def)
  then show ?thesis using TrackChanged by (simp add: rerender_noTimerDeps_inv)
next
  case (PlayerChanged p i)
  show ?thesis
  proof (cases "p = isPlaying s")
    case True
    have "timerInv (s\<lparr>isPlaying := p, isInitialized := i\<rparr>)"
      by (rule timerInv_cong [OF assms]) (simp_all add: timerCondition_def True)
    then show ?thesis using PlayerChanged True by (simp add: rerender_noTimerDeps_inv)
  next
    case False
    have "\<forall>h\<in>intervals (s\<lparr>isPlaying := p, isInitialized := i\<rparr>).
            intervalRef (s\<lparr>isPlaying := p, isInitialized := i\<rparr>) = Some h \<and> h \<noteq> 0"
      using assms by (simp add: timerInv_def)
    from rerender_timerDeps_inv [OF this] show ?thesis using PlayerChanged False by simp
  qed
next
  case (Tick h)
  have "timerInv (s\<lparr>timer := timer s + 0.1\<rparr>)"
    by (rule timerInv_cong [OF assms]) (simp_all add: timerCondition_def)
  then show ?thesis using Tick assms by simp
next
  case PauseRequested
  have "timerInv (s\<lparr>playerCalls := playerCalls s @ [TogglePlayback]\<rparr>)"
    by (rule timerInv_cong [OF assms]) (simp_all add: timerCondition_def)
  then show ?thesis using PauseRequested by (simp add: handlePauseAndGuess_request_def)
next
  case (PauseSettled outcome)
  show ?thesis
  proof (cases outcome)
    case Rejected
    then show ?thesis using PauseSettled assms by (simp add: handlePauseAndGuess_resume_def)
  next
    case Fulfilled
    show ?thesis
    proof (cases "isGuessing s")
      case True
      have "timerInv (s\<lparr>isGuessing := True\<rparr>)"
        by (rule timerInv_cong [OF assms]) (simp_all add: timerCondition_def True)
      then show ?thesis using PauseSettled Fulfilled True
        by (simp add: handlePauseAndGuess_resume_def rerender_noTimerDeps_inv)
    next
      case False
      have "\<forall>h\<in>intervals (s\<lparr>isGuessing := True\<rparr>).
              intervalRef (s\<lparr>isGuessing := True\<rparr>) = Some h \<and> h \<noteq> 0"
        using assms by (simp add: timerInv_def)
      from rerender_timerDeps_inv [OF this] show ?thesis
        using PauseSettled Fulfilled False by (simp add: handlePauseAndGuess_resume_def)
    qed
  qed
next
  case (TitleInput v)
  have "timerInv (s\<lparr>titleGuess := v\<rparr>)"
    by (rule timerInv_cong [OF assms]) (simp_all add: timerCondition_def)
  then show ?thesis using TitleInput by simp
next
  case (ArtistInput v)
  have "timerInv (s\<lparr>artistGuess := v\<rparr>)"
    by (rule timerInv_cong [OF assms]) (simp_all add: timerCondition_def)
  then show ?thesis using ArtistInput by simp
next
  case SubmitGuess
  show ?thesis
  proof (cases "calculateScore sim (titleGuess s) (artistGuess s) (track s) (timer s)")
    case (Inl err)
    then show ?thesis using SubmitGuess assms by (simp add: handleSubmitGuess_def)
  next
    case (Inr r)
    have "\<forall>h\<in>intervals (s\<lparr>result := Some r, completed := completed s @ [score r]\<rparr>).
            intervalRef (s\<lparr>result := Some r, completed := completed s @ [score r]\<rparr>) = Some h \<and> h \<noteq> 0"
      using assms by (simp add: timerInv_def)
    from rerender_timerDeps_inv [OF this] show ?thesis
      using SubmitGuess Inr by (simp add: handleSubmitGuess_def)
  qed
next
  case PlayAgain
  let ?s0 = "s\<lparr>timer := 0, isGuessing := False, titleGuess := [], artistGuess := [], result := None\<rparr>"
  show ?thesis
  proof (cases "isGuessing s \<or> result s \<noteq> None")
    case True
    have "\<forall>h\<in>intervals ?s0. intervalRef ?s0 = Some h \<and> h \<noteq> 0"
      using assms by (simp add: timerInv_def)
    from rerender_timerDeps_inv [OF this] show ?thesis
      using PlayAgain True by (simp add: resetRound_def)
  next
    case False
    have "timerInv ?s0"
      by (rule timerInv_cong [OF assms]) (use False in \<open>simp_all add: timerCondition_def\<close>)
    then show ?thesis using PlayAgain False by (simp add: resetRound_def rerender_noTimerDeps_inv)
  qed
qed

lemma run_snoc: "run sim (es @ [e]) s = step sim e (run sim es s)"
  by (simp add: run_def)

lemma run_inv: "timerInv (run sim es (mount t p i))"
proof (induction es rule: rev_induct)
  case Nil
  show ?case by (simp add: run_def mount_inv)
next
  case (snoc e es)
  then show ?case by (simp add: run_snoc step_inv)
qed

section \<open>The round component: sample rounds\<close>

lemma mount_queen:
  "mount queen True True =
     \<lparr>track = queen, isPlaying = True, isInitialized = True, timer = 0,
      isGuessing = False, titleGuess = [], artistGuess = [], result = None,
      intervalRef = Some 1, intervals = {1}, lastHandle = 1, playerCalls = [PlayTrack queen],
      completed = []\<rparr>"
  by (simp add: mount_def rerender_def clearIfSet_def trackEffect_def timerEffect_def
      setInterval_def)

lemma playing_state:
  "playing =
     \<lparr>track = queen, isPlaying = True, isInitialized = True, timer = 0.3,
      isGuessing = False, titleGuess = [], artistGuess = [], result = None,
      intervalRef = Some 1, intervals = {1}, lastHandle = 1, playerCalls = [PlayTrack queen],
      completed = []\<rparr>"
  by (simp add: playing_def run_def mount_queen)

lemma midGuessing_state:
  "midGuessing =
     \<lparr>track = queen, isPlaying = False, isInitialized = True, timer = 0.3,
      isGuessing = True, titleGuess = ''bohemian'', artistGuess = [], result = None,
      intervalRef = Some 1, intervals = {}, lastHandle = 1,
      playerCalls = [PlayTrack queen, TogglePlayback], completed = []\<rparr>"
  by (simp add: midGuessing_def run_def playing_state handlePauseAndGuess_request_def
      handlePauseAndGuess_resume_def rerender_def clearIfSet_def clearInterval_def timerEffect_def)


section \<open>The round component: the timer\<close>

lemma step_timer:
  "timer (step sim e s) =
     (case e of Tick h \<Rightarrow> if h \<in> intervals s then timer s + 0.1 else timer s
      | PlayAgain \<Rightarrow> 0 | _ \<Rightarrow> timer s)"
  by (cases e)
    (simp_all add: rerender_fields handlePauseAndGuess_request_def handlePauseAndGuess_resume_def
      handleSubmitGuess_def resetRound_def split: settled.split sum.split)

lemma step_isGuessing:
  "isGuessing (step sim e s) =
     (case e of PauseSettled Fulfilled \<Rightarrow> True | PlayAgain \<Rightarrow> False | _ \<Rightarrow> isGuessing s)"
  by (cases e)
    (simp_all add: rerender_fields handlePauseAndGuess_request_def handlePauseAndGuess_resume_def
      handleSubmitGuess_def resetRound_def split: settled.split sum.split)

lemma timerInv_live:
  assumes "timerInv s" "intervals s \<noteq> {}"
  shows "isPlaying s \<and> \<not> isGuessing s \<and> result s = None"
  using assms by (simp add: timerInv_def timerCondition_def)

text \<open>
  C8. In every state \<open>s\<close> that the component reaches from its mount, by any sequence of
  events: an interval is running only if playback is on and the round is neither guessing
  nor scored; an event other than the play-again reset never lowers the timer, and it
  changes the timer only in such a playing state (a tick of the running interval); and once
  \<open>isGuessing\<close> holds, every event other than play-again leaves the round guessing, the timer
  at its value and no interval running. A state change and the re-run of the effects that
  depend on it count as one step.
\<close>

theorem timer_runs_only_while_playing:
  assumes "s = run sim es (mount t playing0 initialized0)"
  shows "(intervals s \<noteq> {} \<longrightarrow> isPlaying s \<and> \<not> isGuessing s \<and> result s = None)
       \<and> (e \<noteq> PlayAgain \<longrightarrow> timer s \<le> timer (step sim e s))
       \<and> (e \<noteq> PlayAgain \<and> timer (step sim e s) \<noteq> timer s
            \<longrightarrow> isPlaying s \<and> \<not> isGuessing s \<and> result s = None)
       \<and> (e \<noteq> PlayAgain \<and> isGuessing s
            \<longrightarrow> isGuessing (step sim e s) \<and> timer (step sim e s) = timer s
                \<and> intervals (step sim e s) = {})"
proof -
  have inv: "timerInv s" unfolding assms by (rule run_inv)
  have inv': "timerInv (step sim e s)" using inv by (rule step_inv)
  have live: "intervals s \<noteq> {} \<longrightarrow> isPlaying s \<and> \<not> isGuessing s \<and> result s = None"
    using timerInv_live [OF inv] by blast
  have mono: "e \<noteq> PlayAgain \<longrightarrow> timer s \<le> timer (step sim e s)"
    by (simp add: step_timer split: event.split)
  have frozen: "e \<noteq> PlayAgain \<and> timer (step sim e s) \<noteq> timer s
                  \<longrightarrow> isPlaying s \<and> \<not> isGuessing s \<and> result s = None"
  proof
    assume a: "e \<noteq> PlayAgain \<and> timer (step sim e s) \<noteq> timer s"
    then have "intervals s \<noteq> {}"
      by (auto simp add: step_timer split: event.splits if_splits)
    then show "isPlaying s \<and> \<not> isGuessing s \<and> result s = None" using live by blast
  qed
  have stopped: "e \<noteq> PlayAgain \<and> isGuessing s
                  \<longrightarrow> isGuessing (step sim e s) \<and> timer (step sim e s) = timer s
                      \<and> intervals (step sim e s) = {}"
  proof
    assume a: "e \<noteq> PlayAgain \<and> isGuessing s"
    then have g: "isGuessing (step sim e s)"
      by (simp add: step_isGuessing split: event.split settled.split)
    have "intervals s = {}" using live a by blast
    then have t: "timer (step sim e s) = timer s" using a
      by (simp add: step_timer split: event.split)
    have "intervals (step sim e s) = {}" using timerInv_live [OF inv'] g by blast
    then show "isGuessing (step sim e s) \<and> timer (step sim e s) = timer s
                \<and> intervals (step sim e s) = {}" using g t by simp
  qed
  show ?thesis using live mono frozen stopped by blast
qed

theorem timer_runs_only_while_playing_witness:
  "intervals playing \<noteq> {} \<and> isPlaying playing \<and> \<not> isGuessing playing \<and> result playing = None
   \<and> Tick 1 \<noteq> PlayAgain \<and> timer playing \<le> timer (step exactMatch (Tick 1) playing)
   \<and> timer (step exactMatch (Tick 1) playing) \<noteq> timer playing
   \<and> isGuessing midGuessing
   \<and> timer (step exactMatch (Tick 1) midGuessing) = timer midGuessing
   \<and> intervals (step exactMatch (Tick 1) midGuessing) = {}"
proof -
  have p: "playing = run exactMatch [Tick 1, Tick 1, Tick 1] (mount queen True True)"
    by (simp add: playing_def)
  have m: "midGuessing = run exactMatch
      ([Tick 1, Tick 1, Tick 1] @
       [PauseRequested, PlayerChanged False True, PauseSettled Fulfilled, TitleInput ''bohemian''])
      (mount queen True True)"
    by (simp add: midGuessing_def playing_def run_def)
  have facts: "intervals playing \<noteq> {}" "Tick 1 \<noteq> PlayAgain" "isGuessing midGuessing"
    "timer (step exactMatch (Tick 1) playing) \<noteq> timer playing"
    by (simp_all add: playing_state midGuessing_state)
  show ?thesis
    using timer_runs_only_while_playing [OF p, of "Tick 1"]
      timer_runs_only_while_playing [OF m, of "Tick 1"] facts
    by simp
qed

section \<open>The round component: a new track\<close>

lemma rerender_trackDeps:
  "playerCalls (rerender True False s) =
     (if isInitialized s then playerCalls s @ [PlayTrack (track s)] else playerCalls s)"
  "intervals (rerender True False s) \<subseteq> intervals s"
  "isInitialized (rerender True False s) = isInitialized s"
  using clearIfSet_intervals_subset [of s]
  by (simp_all add: rerender_def Let_def trackEffect_def clearIfSet_fields)

text \<open>
  C5, amended. A new \<^verbatim>\<open>track\<close> prop, in whatever state it arrives, leaves the timer
  value, the guessing flag, both guess fields and the result as they were: the effect on
  \<^verbatim>\<open>[track, isInitialized]\<close> only clears the running interval and, when the player is
  initialised, calls \<^verbatim>\<open>playTrack\<close> with the new track.
\<close>

theorem trackChanged_keeps_round_state:
  "timer (step sim (TrackChanged t) s) = timer s
   \<and> isGuessing (step sim (TrackChanged t) s) = isGuessing s
   \<and> titleGuess (step sim (TrackChanged t) s) = titleGuess s
   \<and> artistGuess (step sim (TrackChanged t) s) = artistGuess s
   \<and> result (step sim (TrackChanged t) s) = result s
   \<and> track (step sim (TrackChanged t) s) = t
   \<and> playerCalls (step sim (TrackChanged t) s) =
       (if isInitialized s then playerCalls s @ [PlayTrack t] else playerCalls s)
   \<and> intervals (step sim (TrackChanged t) s) \<subseteq> intervals s"
  using rerender_trackDeps(2) [of "s\<lparr>track := t\<rparr>"]
  by (simp add: rerender_fields rerender_trackDeps(1))

theorem trackChanged_keeps_round_state_witness:
  "timer (step exactMatch (TrackChanged yesterday) midGuessing) = 0.3
   \<and> isGuessing (step exactMatch (TrackChanged yesterday) midGuessing)
   \<and> titleGuess (step exactMatch (TrackChanged yesterday) midGuessing) = ''bohemian''
   \<and> track (step exactMatch (TrackChanged yesterday) midGuessing) = yesterday
   \<and> playerCalls (step exactMatch (TrackChanged yesterday) midGuessing) =
       [PlayTrack queen, TogglePlayback, PlayTrack yesterday]"
  using trackChanged_keeps_round_state [of exactMatch yesterday midGuessing]
  by (simp add: midGuessing_state)

text \<open>
  C5, as stated, fails: in the middle of guessing, with 0.3 seconds on the timer and a
  title typed, a new track leaves all three as they are.
\<close>

theorem trackChanged_resets_counterexample:
  "isGuessing midGuessing \<and> result midGuessing = None
   \<and> timer (step exactMatch (TrackChanged yesterday) midGuessing) = 0.3
   \<and> titleGuess (step exactMatch (TrackChanged yesterday) midGuessing) = ''bohemian''
   \<and> isGuessing (step exactMatch (TrackChanged yesterday) midGuessing)
   \<and> \<not> (timer (step exactMatch (TrackChanged yesterday) midGuessing) = 0
        \<and> titleGuess (step exactMatch (TrackChanged yesterday) midGuessing) = []
        \<and> \<not> isGuessing (step exactMatch (TrackChanged yesterday) midGuessing))"
  by (simp add: midGuessing_state rerender_fields)

section \<open>The round component: pause and guess\<close>

text \<open>
  C6, as stated, fails: after the request, with \<^verbatim>\<open>togglePlayback()\<close> called and not yet
  settled, the round is not guessing; and it is not guessing after a rejection either.
\<close>

theorem pauseAndGuess_immediate_counterexample:
  "\<not> isGuessing playing
   \<and> playerCalls (step exactMatch PauseRequested playing) = [PlayTrack queen, TogglePlayback]
   \<and> \<not> isGuessing (step exactMatch PauseRequested playing)
   \<and> \<not> isGuessing (step exactMatch (PauseSettled Rejected) (step exactMatch PauseRequested playing))"
  by (simp add: playing_state handlePauseAndGuess_request_def handlePauseAndGuess_resume_def)

text \<open>
  C6, amended. \<^verbatim>\<open>handlePauseAndGuess\<close> awaits \<^verbatim>\<open>togglePlayback()\<close> and sets the
  guessing flag after it: the request leaves \<open>isGuessing\<close> as it was, the continuation after
  a fulfilled toggle sets it, a rejected toggle changes nothing, and no other event takes a
  round that is not guessing into guessing.
\<close>

theorem pauseAndGuess_awaits_toggle:
  "isGuessing (handlePauseAndGuess_request s) = isGuessing s
   \<and> playerCalls (handlePauseAndGuess_request s) = playerCalls s @ [TogglePlayback]
   \<and> isGuessing (handlePauseAndGuess_resume Fulfilled s)
   \<and> handlePauseAndGuess_resume Rejected s = s
   \<and> (\<not> isGuessing s \<and> isGuessing (step sim e s) \<longrightarrow> e = PauseSettled Fulfilled)"
  by (simp add: handlePauseAndGuess_request_def handlePauseAndGuess_resume_def rerender_fields
      step_isGuessing split: event.split settled.split)

theorem pauseAndGuess_awaits_toggle_witness:
  "\<not> isGuessing playing
   \<and> \<not> isGuessing (handlePauseAndGuess_request playing)
   \<and> isGuessing (step exactMatch (PauseSettled Fulfilled) (handlePauseAndGuess_request playing))
   \<and> PauseSettled Fulfilled = PauseSettled Fulfilled"
  using pauseAndGuess_awaits_toggle [of playing exactMatch "PauseSettled Fulfilled"]
    pauseAndGuess_awaits_toggle [of "handlePauseAndGuess_request playing" exactMatch "PauseSettled Fulfilled"]
  by (simp add: playing_state)

section \<open>Play again\<close>








section \<open>Similarity\<close>














end
